theory Spec2Isabelle
  imports Main
begin

section \<open>Signed tokens\<close>

text \<open>
  The server signs and verifies its bearer tokens with the jsonwebtoken library. A token is
  modelled by what \<^verbatim>\<open>jwt.verify\<close> can tell about it: the secret it was signed with, the
  payload, and the expiry instant in seconds. Every \<^verbatim>\<open>jwt.sign\<close> of the user-facing
  endpoints signs a payload \<^verbatim>\<open>{ email, type }\<close>. A string that is no well-formed token
  is \<open>Malformed\<close>. Time is a natural number of seconds, handed to each handler.
\<close>

record payload =
  p_email :: string
  p_type :: string

datatype token = Jwt string payload nat | Malformed

definition JWT_SECRET :: string where
  "JWT_SECRET = ''dev_secret_replace_me''"

definition TEN_MINUTES :: nat where
  "TEN_MINUTES = 600"

definition SEVEN_DAYS :: nat where
  "SEVEN_DAYS = 604800"

definition jwt_sign :: "payload \<Rightarrow> string \<Rightarrow> nat \<Rightarrow> nat \<Rightarrow> token" where
  "jwt_sign p secret expiresIn now = Jwt secret p (now + expiresIn)"

text \<open>\<^verbatim>\<open>jwt.verify\<close> throws on a malformed token, a wrong signature and an expired token;
  the handlers catch all three alike, so the model returns \<open>None\<close> for each.\<close>

fun jwt_verify :: "token \<Rightarrow> string \<Rightarrow> nat \<Rightarrow> payload option" where
  "jwt_verify (Jwt k p e) secret now = (if k = secret \<and> now < e then Some p else None)"
| "jwt_verify Malformed secret now = None"

section \<open>Password hashing\<close>

text \<open>
  bcryptjs is a library outside the repository: its two functions are parameters of the
  handlers that call them. \<open>hashSync bc password salt\<close> is the hash string,
  \<open>compareSync bc password hash\<close> the comparison. The salt drawn by
  \<^verbatim>\<open>genSaltSync(8)\<close> is an input of the handler.
\<close>

record bcrypt =
  hashSync :: "string \<Rightarrow> string \<Rightarrow> string"
  compareSync :: "string \<Rightarrow> string \<Rightarrow> bool"

section \<open>Responses\<close>

datatype body =
    ErrorMsg string
  | PreviewToken token
  | Token token
  | OkTrue
  | AudioStream string
  | Attachment string

datatype response = Response nat body

fun status :: "response \<Rightarrow> nat" where
  "status (Response code b) = code"

section \<open>Stored state\<close>

text \<open>
  The users table is keyed by the unique email column. The previews column holds the JSON
  text of an object from category names to counts; the model keeps the parsed object
  (\<^verbatim>\<open>JSON.parse\<close> of \<^verbatim>\<open>JSON.stringify\<close> gives the object back), and \<open>None\<close> stands
  for a column that is NULL or the empty string. The songs table is keyed by id. \<open>files\<close>
  is the set of storage keys present in the uploads directory. Storage failures (the
  \<^verbatim>\<open>err\<close> argument of the callbacks) are not modelled.
\<close>

record user_row =
  passwordHash :: "string option"
  previews :: "(string \<rightharpoonup> nat) option"

record song_row =
  title :: string
  category :: string
  filename :: string

record state =
  users :: "string \<rightharpoonup> user_row"
  songs :: "nat \<rightharpoonup> song_row"
  files :: "string set"

subsection \<open>What a query hands to its callback\<close>

text \<open>
  \<^verbatim>\<open>db\<close> is a mysql2 pool: the callback of \<^verbatim>\<open>db.query\<close> receives, for a SELECT,
  the array of the rows found. \<^verbatim>\<open>findUserByEmail\<close> and \<^verbatim>\<open>createUser\<close> take
  element 0 of that array. The following functions are the JavaScript operations the
  handlers apply to such an array.
\<close>

definition select_users :: "state \<Rightarrow> string \<Rightarrow> user_row list" where
  "select_users s email = (case users s email of None \<Rightarrow> [] | Some u \<Rightarrow> [u])"

definition select_songs :: "state \<Rightarrow> nat \<Rightarrow> song_row list" where
  "select_songs s songId = (case songs s songId of None \<Rightarrow> [] | Some r \<Rightarrow> [r])"

text \<open>\<^verbatim>\<open>rows[0]\<close>: the first row, or undefined on an empty array.\<close>

fun rows0 :: "'r list \<Rightarrow> 'r option" where
  "rows0 [] = None"
| "rows0 (r # rs) = Some r"

text \<open>\<^verbatim>\<open>!rows\<close> is false for every array, the empty one too: an array is truthy.\<close>

definition array_truthy :: "'r list \<Rightarrow> bool" where
  "array_truthy rows = True"

text \<open>\<^verbatim>\<open>rows.column\<close>, read off the array itself: an array has indices and
  \<^verbatim>\<open>length\<close>, and no property named after a column, so the read gives undefined
  whatever the rows hold.\<close>

definition array_prop :: "'r list \<Rightarrow> ('r \<Rightarrow> 'a) \<Rightarrow> 'a option" where
  "array_prop rows column = None"

text \<open>\<^verbatim>\<open>obj[k]\<close> turns the key into a string: undefined becomes the key
  \<^verbatim>\<open>"undefined"\<close>.\<close>

fun property_key :: "string option \<Rightarrow> string" where
  "property_key None = ''undefined''"
| "property_key (Some k) = k"

text \<open>\<^verbatim>\<open>path.join(UPLOADS, name)\<close> throws a TypeError unless \<^verbatim>\<open>name\<close> is a string.
  A path under the uploads directory is identified with its storage key.\<close>

fun path_join_uploads :: "string option \<Rightarrow> string + string" where
  \<open>path_join_uploads None =
     Inl ''The "path" argument must be of type string. Received undefined''\<close>
| "path_join_uploads (Some name) = Inr name"

text \<open>\<^verbatim>\<open>previews[k] || 0\<close>: an absent key, like a stored 0, counts 0.\<close>

definition count_or_zero :: "(string \<rightharpoonup> nat) \<Rightarrow> string \<Rightarrow> nat" where
  "count_or_zero pv k = (case pv k of None \<Rightarrow> 0 | Some n \<Rightarrow> n)"

subsection \<open>Helper DB functions\<close>

definition findUserByEmail :: "state \<Rightarrow> string \<Rightarrow> user_row option" where
  "findUserByEmail s email = rows0 (select_users s email)"

text \<open>\<^verbatim>\<open>INSERT IGNORE\<close>: a row whose email is already present is left as it is.\<close>

definition createUser :: "state \<Rightarrow> string \<Rightarrow> state" where
  "createUser s email =
     (case users s email of
        None \<Rightarrow> s\<lparr>users := (users s)(email \<mapsto> \<lparr>passwordHash = None, previews = Some Map.empty\<rparr>)\<rparr>
      | Some u \<Rightarrow> s)"

text \<open>\<^verbatim>\<open>UPDATE ... WHERE email = ?\<close>: no row, no change.\<close>

definition updateUserPreviews :: "state \<Rightarrow> string \<Rightarrow> (string \<rightharpoonup> nat) \<Rightarrow> state" where
  "updateUserPreviews s email pv =
     (case users s email of
        None \<Rightarrow> s
      | Some u \<Rightarrow> s\<lparr>users := (users s)(email \<mapsto> u\<lparr>previews := Some pv\<rparr>)\<rparr>)"

definition setUserPassword :: "state \<Rightarrow> string \<Rightarrow> string \<Rightarrow> state" where
  "setUserPassword s email h =
     (case users s email of
        None \<Rightarrow> s
      | Some u \<Rightarrow> s\<lparr>users := (users s)(email \<mapsto> u\<lparr>passwordHash := Some h\<rparr>)\<rparr>)"

section \<open>Request handlers\<close>

text \<open>
  A handler takes the stored state, the current time and the request's fields, and returns
  the response with the state after the request. A string field that is missing from the
  body and one that is the empty string are both falsy for the handlers' \<^verbatim>\<open>!field\<close>
  checks: the model writes both as the empty string. A token field or bearer header is a
  \<open>token option\<close>, \<open>None\<close> when the body has no token, or the Authorization header is
  absent or does not start with \<^verbatim>\<open>Bearer \<close>.
\<close>

definition request_preview :: "state \<Rightarrow> nat \<Rightarrow> string \<Rightarrow> response \<times> state" where
  "request_preview s now email =
     (if email = [] then (Response 400 (ErrorMsg ''email required''), s)
      else
        let s' = createUser s email;
            previewToken = jwt_sign \<lparr>p_email = email, p_type = ''preview''\<rparr> JWT_SECRET TEN_MINUTES now
        in (Response 200 (PreviewToken previewToken), s'))"

definition pay :: "state \<Rightarrow> nat \<Rightarrow> token option \<Rightarrow> bool \<Rightarrow> response \<times> state" where
  "pay s now previewToken simulateFail =
     (case previewToken of
        None \<Rightarrow> (Response 400 (ErrorMsg ''previewToken required''), s)
      | Some t \<Rightarrow>
          (case jwt_verify t JWT_SECRET now of
             None \<Rightarrow> (Response 401 (ErrorMsg ''invalid or expired preview token''), s)
           | Some p \<Rightarrow>
               if simulateFail then (Response 402 (ErrorMsg ''payment failed (simulated)''), s)
               else (Response 200 OkTrue, s)))"

definition set_password ::
  "bcrypt \<Rightarrow> state \<Rightarrow> nat \<Rightarrow> string \<Rightarrow> token option \<Rightarrow> string \<Rightarrow> response \<times> state" where
  "set_password bc s now salt previewToken password =
     (case previewToken of
        None \<Rightarrow> (Response 400 (ErrorMsg ''missing fields''), s)
      | Some t \<Rightarrow>
          if password = [] then (Response 400 (ErrorMsg ''missing fields''), s)
          else
            (case jwt_verify t JWT_SECRET now of
               None \<Rightarrow> (Response 401 (ErrorMsg ''invalid/expired token''), s)
             | Some p \<Rightarrow>
                 let email = p_email p;
                     hash = hashSync bc password salt;
                     s' = setUserPassword s email hash;
                     tok = jwt_sign \<lparr>p_email = email, p_type = ''user''\<rparr> JWT_SECRET SEVEN_DAYS now
                 in (Response 200 (Token tok), s')))"

definition login :: "bcrypt \<Rightarrow> state \<Rightarrow> nat \<Rightarrow> string \<Rightarrow> string \<Rightarrow> response \<times> state" where
  "login bc s now email password =
     (if email = [] \<or> password = [] then (Response 400 (ErrorMsg ''missing fields''), s)
      else
        (case findUserByEmail s email of
           None \<Rightarrow> (Response 401 (ErrorMsg ''no such user or password not set''), s)
         | Some u \<Rightarrow>
             (case passwordHash u of
                None \<Rightarrow> (Response 401 (ErrorMsg ''no such user or password not set''), s)
              | Some h \<Rightarrow>
                  if h = [] then (Response 401 (ErrorMsg ''no such user or password not set''), s)
                  else if \<not> compareSync bc password h
                    then (Response 401 (ErrorMsg ''invalid credentials''), s)
                  else
                    let tok = jwt_sign \<lparr>p_email = email, p_type = ''user''\<rparr> JWT_SECRET SEVEN_DAYS now
                    in (Response 200 (Token tok), s))))"

text \<open>Helper: accept either preview or user token. The result is the payload's email,
  or \<open>None\<close> for null.\<close>

definition getEmailFromAuthHeader :: "nat \<Rightarrow> token option \<Rightarrow> string option" where
  "getEmailFromAuthHeader now auth =
     (case auth of
        None \<Rightarrow> None
      | Some t \<Rightarrow> (case jwt_verify t JWT_SECRET now of None \<Rightarrow> None | Some p \<Rightarrow> Some (p_email p)))"

text \<open>
  Preview streaming. \<open>song\<close> is what the songs query hands to the callback. Reading
  \<^verbatim>\<open>user.previews\<close> of an undefined user would throw inside the \<^verbatim>\<open>try\<close>, hence
  the 500 of that branch.
\<close>

definition preview :: "state \<Rightarrow> nat \<Rightarrow> token option \<Rightarrow> nat \<Rightarrow> response \<times> state" where
  "preview s now auth songId =
     (case getEmailFromAuthHeader now auth of
        None \<Rightarrow> (Response 401 (ErrorMsg ''authorization required (preview token or user token)''), s)
      | Some email \<Rightarrow>
          if email = []
            then (Response 401 (ErrorMsg ''authorization required (preview token or user token)''), s)
          else
            let song = select_songs s songId in
            if \<not> array_truthy song then (Response 404 (ErrorMsg ''song not found''), s)
            else
              let s1 = (case findUserByEmail s email of None \<Rightarrow> createUser s email | Some u \<Rightarrow> s) in
              (case findUserByEmail s1 email of
                 None \<Rightarrow> (Response 500 (ErrorMsg ''Cannot read properties of undefined''), s1)
               | Some user \<Rightarrow>
                   let pv = (case previews user of None \<Rightarrow> Map.empty | Some m \<Rightarrow> m);
                       key = property_key (array_prop song category);
                       count = count_or_zero pv key
                   in
                     if count \<ge> 5
                       then (Response 403 (ErrorMsg ''preview limit reached for this category (5)''), s1)
                     else
                       let s2 = updateUserPreviews s1 email (pv(key \<mapsto> count + 1)) in
                       (case path_join_uploads (array_prop song filename) of
                          Inl msg \<Rightarrow> (Response 500 (ErrorMsg msg), s2)
                        | Inr filePath \<Rightarrow>
                            if filePath \<notin> files s2
                              then (Response 404 (ErrorMsg ''file missing on server''), s2)
                            else (Response 200 (AudioStream filePath), s2))))"

text \<open>
  The preview handler is not one indivisible action: it awaits the SELECT of the user and
  later awaits the UPDATE that writes the whole previews object back, and other requests
  may be served in between. \<open>preview_read\<close> is the handler up to the assignment
  \<^verbatim>\<open>previews[song.category] = count + 1\<close> on the object in memory: it either answers
  at once or leaves a write to be done. \<open>preview_write\<close> is the rest, from
  \<^verbatim>\<open>updateUserPreviews\<close> on, run on the state stored at that later moment.
\<close>

record pending_write =
  pw_email :: string
  pw_previews :: "string \<rightharpoonup> nat"
  pw_song :: "song_row list"

definition preview_read ::
  "state \<Rightarrow> nat \<Rightarrow> token option \<Rightarrow> nat \<Rightarrow> (response + pending_write) \<times> state" where
  "preview_read s now auth songId =
     (case getEmailFromAuthHeader now auth of
        None \<Rightarrow>
          (Inl (Response 401 (ErrorMsg ''authorization required (preview token or user token)'')), s)
      | Some email \<Rightarrow>
          if email = []
            then (Inl (Response 401
                         (ErrorMsg ''authorization required (preview token or user token)'')), s)
          else
            let song = select_songs s songId in
            if \<not> array_truthy song then (Inl (Response 404 (ErrorMsg ''song not found'')), s)
            else
              let s1 = (case findUserByEmail s email of None \<Rightarrow> createUser s email | Some u \<Rightarrow> s) in
              (case findUserByEmail s1 email of
                 None \<Rightarrow> (Inl (Response 500 (ErrorMsg ''Cannot read properties of undefined'')), s1)
               | Some user \<Rightarrow>
                   let pv = (case previews user of None \<Rightarrow> Map.empty | Some m \<Rightarrow> m);
                       key = property_key (array_prop song category);
                       count = count_or_zero pv key
                   in
                     if count \<ge> 5
                       then (Inl (Response 403
                                    (ErrorMsg ''preview limit reached for this category (5)'')), s1)
                     else
                       (Inr \<lparr>pw_email = email, pw_previews = pv(key \<mapsto> count + 1),
                             pw_song = song\<rparr>, s1)))"

definition preview_write :: "state \<Rightarrow> pending_write \<Rightarrow> response \<times> state" where
  "preview_write s w =
     (let s2 = updateUserPreviews s (pw_email w) (pw_previews w) in
      (case path_join_uploads (array_prop (pw_song w) filename) of
         Inl msg \<Rightarrow> (Response 500 (ErrorMsg msg), s2)
       | Inr filePath \<Rightarrow>
           if filePath \<notin> files s2
             then (Response 404 (ErrorMsg ''file missing on server''), s2)
           else (Response 200 (AudioStream filePath), s2)))"

text \<open>The middleware of the download route: \<open>Inl\<close> is the response it sends itself,
  \<open>Inr\<close> the email it attaches to the request before calling \<^verbatim>\<open>next()\<close>.\<close>

definition verifyUserToken :: "nat \<Rightarrow> token option \<Rightarrow> response + string" where
  "verifyUserToken now auth =
     (case auth of
        None \<Rightarrow> Inl (Response 401 (ErrorMsg ''token required''))
      | Some t \<Rightarrow>
          (case jwt_verify t JWT_SECRET now of
             None \<Rightarrow> Inl (Response 401 (ErrorMsg ''invalid/expired token''))
           | Some p \<Rightarrow>
               if p_type p \<noteq> ''user'' then Inl (Response 401 (ErrorMsg ''invalid token type''))
               else Inr (p_email p)))"

definition download :: "state \<Rightarrow> nat \<Rightarrow> token option \<Rightarrow> nat \<Rightarrow> response \<times> state" where
  "download s now auth songId =
     (case verifyUserToken now auth of
        Inl r \<Rightarrow> (r, s)
      | Inr email \<Rightarrow>
          let song = select_songs s songId in
          if \<not> array_truthy song then (Response 404 (ErrorMsg ''song not found''), s)
          else
            (case findUserByEmail s email of
               None \<Rightarrow> (Response 403 (ErrorMsg ''no access''), s)
             | Some user \<Rightarrow>
                 (case previews user of
                    None \<Rightarrow> (Response 403 (ErrorMsg ''no access''), s)
                  | Some pv \<Rightarrow>
                      let count = count_or_zero pv (property_key (array_prop song category)) in
                        if count \<le> 0
                          then (Response 403
                                  (ErrorMsg ''no preview/download allowance left for this category''), s)
                        else
                          (case path_join_uploads (array_prop song filename) of
                             Inl msg \<Rightarrow> (Response 500 (ErrorMsg msg), s)
                           | Inr filePath \<Rightarrow>
                               if filePath \<notin> files s
                                 then (Response 404 (ErrorMsg ''file missing''), s)
                               else (Response 200 (Attachment filePath), s)))))"

text \<open>The authenticated route that lets a user set or change the password.\<close>

definition user_set_password ::
  "bcrypt \<Rightarrow> state \<Rightarrow> nat \<Rightarrow> string \<Rightarrow> token option \<Rightarrow> string \<Rightarrow> response \<times> state" where
  "user_set_password bc s now salt auth password =
     (case verifyUserToken now auth of
        Inl r \<Rightarrow> (r, s)
      | Inr email \<Rightarrow>
          if password = [] then (Response 400 (ErrorMsg ''password required''), s)
          else (Response 200 OkTrue, setUserPassword s email (hashSync bc password salt)))"

section \<open>The system as a whole\<close>






definition preview_count :: "state \<Rightarrow> string \<Rightarrow> string \<Rightarrow> nat" where
  "preview_count s email cat =
     (case users s email of
        None \<Rightarrow> 0
      | Some u \<Rightarrow> count_or_zero (case previews u of None \<Rightarrow> Map.empty | Some pv \<Rightarrow> pv) cat)"

section \<open>Sample data\<close>

text \<open>The seed script's song \<^verbatim>\<open>calm1.mp3\<close> of category Calm, a user who has no
  password yet, and the two kinds of token for that user, both issued at time 0.\<close>

definition calm_song :: song_row where
  "calm_song = \<lparr>title = ''Calm Ambient'', category = ''Calm'', filename = ''calm1.mp3''\<rparr>"

definition sample_user :: "nat \<Rightarrow> user_row" where
  "sample_user n = \<lparr>passwordHash = None, previews = Some [''Calm'' \<mapsto> n]\<rparr>"

definition sample_state :: "nat \<Rightarrow> state" where
  "sample_state n =
     \<lparr>users = [''a@x.com'' \<mapsto> sample_user n], songs = [3 \<mapsto> calm_song], files = {''calm1.mp3''}\<rparr>"

text \<open>A stand-in for the hashing library in the examples: the hash is the two-character
  salt followed by the password.\<close>

definition sample_bcrypt :: bcrypt where
  "sample_bcrypt =
     \<lparr>hashSync = (\<lambda>password salt. salt @ password),
      compareSync = (\<lambda>password hash. drop 2 hash = password)\<rparr>"

definition preview_token_a :: token where
  "preview_token_a =
     jwt_sign \<lparr>p_email = ''a@x.com'', p_type = ''preview''\<rparr> JWT_SECRET TEN_MINUTES 0"

definition user_token_a :: token where
  "user_token_a = jwt_sign \<lparr>p_email = ''a@x.com'', p_type = ''user''\<rparr> JWT_SECRET SEVEN_DAYS 0"





section \<open>Unfolding rules\<close>

lemmas sample_defs =
  sample_state_def sample_user_def calm_song_def preview_token_a_def user_token_a_def
  sample_bcrypt_def jwt_sign_def JWT_SECRET_def TEN_MINUTES_def SEVEN_DAYS_def

lemmas db_defs =
  findUserByEmail_def select_users_def select_songs_def createUser_def
  updateUserPreviews_def setUserPassword_def

lemmas gate_defs =
  preview_def download_def getEmailFromAuthHeader_def verifyUserToken_def
  array_truthy_def array_prop_def count_or_zero_def Let_def

lemmas account_defs =
  request_preview_def pay_def set_password_def login_def user_set_password_def Let_def

lemmas eval_defs = sample_defs gate_defs db_defs preview_count_def


section \<open>Authentication of the download route\<close>

text \<open>
  Claim C3. A download request that presents a valid, unexpired token of preview kind is
  answered 401 by the route's middleware, as is a request with no bearer token and a
  request whose token does not verify; the stored state is untouched in all three cases.
  The middleware lets a request through exactly when its token verifies under the server
  secret and carries the type \<^verbatim>\<open>user\<close>.
\<close>

theorem download_rejects_preview_token:
  "(jwt_verify t JWT_SECRET now = Some p \<and> p_type p = ''preview'' \<longrightarrow>
      download s now (Some t) songId = (Response 401 (ErrorMsg ''invalid token type''), s)) \<and>
   download s now None songId = (Response 401 (ErrorMsg ''token required''), s) \<and>
   (jwt_verify t JWT_SECRET now = None \<longrightarrow>
      download s now (Some t) songId = (Response 401 (ErrorMsg ''invalid/expired token''), s)) \<and>
   (verifyUserToken now auth = Inr e \<longleftrightarrow>
      (\<exists>t' p'. auth = Some t' \<and> jwt_verify t' JWT_SECRET now = Some p' \<and>
         p_type p' = ''user'' \<and> e = p_email p'))"
  by (cases auth) (auto simp: download_def verifyUserToken_def split: option.splits)

theorem download_rejects_preview_token_witness:
  "jwt_verify preview_token_a JWT_SECRET 5 = Some \<lparr>p_email = ''a@x.com'', p_type = ''preview''\<rparr> \<and>
   download (sample_state 5) 5 (Some preview_token_a) 3 =
     (Response 401 (ErrorMsg ''invalid token type''), sample_state 5) \<and>
   jwt_verify preview_token_a JWT_SECRET 600 = None \<and>
   download (sample_state 5) 600 (Some preview_token_a) 3 =
     (Response 401 (ErrorMsg ''invalid/expired token''), sample_state 5) \<and>
   verifyUserToken 5 (Some user_token_a) = Inr ''a@x.com''"
proof -
  let ?p = "\<lparr>p_email = ''a@x.com'', p_type = ''preview''\<rparr>"
  have valid: "jwt_verify preview_token_a JWT_SECRET 5 = Some ?p \<and> p_type ?p = ''preview''"
    by (simp add: preview_token_a_def jwt_sign_def TEN_MINUTES_def)
  have expired: "jwt_verify preview_token_a JWT_SECRET 600 = None"
    by (simp add: preview_token_a_def jwt_sign_def TEN_MINUTES_def)
  have user: "\<exists>t' p'. Some user_token_a = Some t' \<and> jwt_verify t' JWT_SECRET 5 = Some p' \<and>
      p_type p' = ''user'' \<and> ''a@x.com'' = p_email p'"
    by (simp add: user_token_a_def jwt_sign_def SEVEN_DAYS_def)
  from download_rejects_preview_token
         [of preview_token_a 5 ?p "sample_state 5" 3 "Some user_token_a" "''a@x.com''"]
       download_rejects_preview_token
         [of preview_token_a 600 ?p "sample_state 5" 3 "Some user_token_a" "''a@x.com''"]
       valid expired user
  show ?thesis by blast
qed

section \<open>Payment\<close>

text \<open>
  Claim C6. The payment endpoint persists nothing: whatever its outcome, the stored state
  after the call is the state before it. The outcome is 400 without a token, 401 for a
  token that does not verify, 402 when a failure is simulated and 200 otherwise. The state
  has no field that records a payment.
\<close>

theorem pay_persists_nothing:
  "snd (pay s now previewToken simulateFail) = s \<and>
   status (fst (pay s now previewToken simulateFail)) =
     (case previewToken of
        None \<Rightarrow> 400
      | Some t \<Rightarrow>
          (case jwt_verify t JWT_SECRET now of
             None \<Rightarrow> 401
           | Some p \<Rightarrow> if simulateFail then 402 else 200))"
  by (simp add: pay_def split: option.splits)

section \<open>Account upgrade flow\<close>

text \<open>
  Claim C8. A preview request for an email that already has a user record leaves the whole
  stored state as it was, so the record keeps its preview counts and its password hash, and
  answers 200 with a preview token for that email that is signed at the time of the request
  and verifies for the next ten minutes. The email field is present (non-empty); without it
  the endpoint answers 400.
\<close>

theorem request_preview_idempotent:
  assumes "email \<noteq> []" and "users s email = Some u"
  shows "request_preview s now email =
           (Response 200
              (PreviewToken
                 (jwt_sign \<lparr>p_email = email, p_type = ''preview''\<rparr> JWT_SECRET TEN_MINUTES now)), s) \<and>
         (now \<le> t \<and> t < now + TEN_MINUTES \<longrightarrow>
            jwt_verify (jwt_sign \<lparr>p_email = email, p_type = ''preview''\<rparr> JWT_SECRET TEN_MINUTES now)
              JWT_SECRET t = Some \<lparr>p_email = email, p_type = ''preview''\<rparr>)"
  using assms by (simp add: request_preview_def createUser_def jwt_sign_def Let_def)

theorem request_preview_idempotent_witness:
  "users (sample_state 4) ''a@x.com'' = Some (sample_user 4) \<and>
   request_preview (sample_state 4) 700 ''a@x.com'' =
     (Response 200
        (PreviewToken
           (jwt_sign \<lparr>p_email = ''a@x.com'', p_type = ''preview''\<rparr> JWT_SECRET TEN_MINUTES 700)),
      sample_state 4) \<and>
   jwt_verify (jwt_sign \<lparr>p_email = ''a@x.com'', p_type = ''preview''\<rparr> JWT_SECRET TEN_MINUTES 700)
     JWT_SECRET 1299 = Some \<lparr>p_email = ''a@x.com'', p_type = ''preview''\<rparr>"
proof -
  have present: "''a@x.com'' \<noteq> []"
    by simp
  have stored: "users (sample_state 4) ''a@x.com'' = Some (sample_user 4)"
    by (simp add: sample_state_def)
  have window: "(700::nat) \<le> 1299 \<and> (1299::nat) < 700 + TEN_MINUTES"
    by (simp add: TEN_MINUTES_def)
  from request_preview_idempotent [OF present stored, of 700 1299] stored window
  show ?thesis by blast
qed

text \<open>
  Claim C9. Neither the password-setting endpoint nor the payment endpoint looks at the
  type of the token. Every token that verifies under the server secret is accepted by both:
  the password is set for the token's email and a new user token is issued, and the payment
  goes through (or fails as simulated). A token of type \<^verbatim>\<open>user\<close> and a token of type
  \<^verbatim>\<open>preview\<close> that agree otherwise get the same answer and leave the same state.
  Setting the password means: when the token's email has a user record, the record stored
  after the call carries the hash of the given password and the previews it had, and the
  record of every other email is as before.
\<close>

theorem token_kind_not_checked:
  assumes "jwt_verify t JWT_SECRET now = Some p" and "password \<noteq> []"
  shows "set_password bc s now salt (Some t) password =
           (Response 200
              (Token (jwt_sign \<lparr>p_email = p_email p, p_type = ''user''\<rparr> JWT_SECRET SEVEN_DAYS now)),
            setUserPassword s (p_email p) (hashSync bc password salt)) \<and>
         pay s now (Some t) simulateFail =
           (if simulateFail then Response 402 (ErrorMsg ''payment failed (simulated)'')
            else Response 200 OkTrue, s) \<and>
         set_password bc s now salt (Some (Jwt k (p\<lparr>p_type := ''user''\<rparr>) e)) password =
           set_password bc s now salt (Some (Jwt k (p\<lparr>p_type := ''preview''\<rparr>) e)) password \<and>
         pay s now (Some (Jwt k (p\<lparr>p_type := ''user''\<rparr>) e)) simulateFail =
           pay s now (Some (Jwt k (p\<lparr>p_type := ''preview''\<rparr>) e)) simulateFail \<and>
         (users s (p_email p) = Some u \<longrightarrow>
            users (snd (set_password bc s now salt (Some t) password)) (p_email p) =
              Some \<lparr>passwordHash = Some (hashSync bc password salt), previews = previews u\<rparr>) \<and>
         (other \<noteq> p_email p \<longrightarrow>
            users (snd (set_password bc s now salt (Some t) password)) other = users s other)"
  using assms by (auto simp: set_password_def pay_def setUserPassword_def Let_def split: option.splits)

theorem token_kind_not_checked_witness:
  "jwt_verify user_token_a JWT_SECRET 5 = Some \<lparr>p_email = ''a@x.com'', p_type = ''user''\<rparr> \<and>
   set_password sample_bcrypt (sample_state 4) 5 ''s1'' (Some user_token_a) ''pw'' =
     (Response 200
        (Token (jwt_sign \<lparr>p_email = ''a@x.com'', p_type = ''user''\<rparr> JWT_SECRET SEVEN_DAYS 5)),
      setUserPassword (sample_state 4) ''a@x.com'' ''s1pw'') \<and>
   pay (sample_state 4) 5 (Some user_token_a) False = (Response 200 OkTrue, sample_state 4) \<and>
   users (sample_state 4) ''a@x.com'' = Some (sample_user 4) \<and>
   passwordHash (sample_user 4) = None \<and>
   users (snd (set_password sample_bcrypt (sample_state 4) 5 ''s1'' (Some user_token_a) ''pw''))
       ''a@x.com'' =
     Some \<lparr>passwordHash = Some ''s1pw'', previews = Some [''Calm'' \<mapsto> 4]\<rparr> \<and>
   users (snd (set_password sample_bcrypt (sample_state 4) 5 ''s1'' (Some user_token_a) ''pw''))
       ''b@x.com'' = None"
proof -
  let ?p = "\<lparr>p_email = ''a@x.com'', p_type = ''user''\<rparr>"
  have valid: "jwt_verify user_token_a JWT_SECRET 5 = Some ?p"
    by (simp add: user_token_a_def jwt_sign_def SEVEN_DAYS_def)
  have present: "''pw'' \<noteq> []"
    by simp
  have hash: "hashSync sample_bcrypt ''pw'' ''s1'' = ''s1pw''"
    by (simp add: sample_bcrypt_def)
  have stored: "users (sample_state 4) (p_email ?p) = Some (sample_user 4)"
    and before: "passwordHash (sample_user 4) = None"
    and kept: "previews (sample_user 4) = Some [''Calm'' \<mapsto> 4]"
    and other: "''b@x.com'' \<noteq> p_email ?p"
    and absent: "users (sample_state 4) ''b@x.com'' = None"
    by (simp_all add: sample_state_def sample_user_def)
  note inst = token_kind_not_checked
         [OF valid present, where bc = sample_bcrypt and s = "sample_state 4" and salt = "''s1''"
            and simulateFail = False and u = "sample_user 4" and other = "''b@x.com''"
            and k = JWT_SECRET and e = 600]
  have answered:
    "set_password sample_bcrypt (sample_state 4) 5 ''s1'' (Some user_token_a) ''pw'' =
       (Response 200
          (Token (jwt_sign \<lparr>p_email = ''a@x.com'', p_type = ''user''\<rparr> JWT_SECRET SEVEN_DAYS 5)),
        setUserPassword (sample_state 4) ''a@x.com'' ''s1pw'')"
    using inst [THEN conjunct1] hash by simp
  have paid: "pay (sample_state 4) 5 (Some user_token_a) False = (Response 200 OkTrue, sample_state 4)"
    using inst [THEN conjunct2, THEN conjunct1] by simp
  from inst stored
  have "users (snd (set_password sample_bcrypt (sample_state 4) 5 ''s1'' (Some user_token_a) ''pw''))
          (p_email ?p) =
        Some \<lparr>passwordHash = Some (hashSync sample_bcrypt ''pw'' ''s1''),
              previews = previews (sample_user 4)\<rparr>"
    by blast
  then have set:
    "users (snd (set_password sample_bcrypt (sample_state 4) 5 ''s1'' (Some user_token_a) ''pw''))
       ''a@x.com'' =
     Some \<lparr>passwordHash = Some ''s1pw'', previews = Some [''Calm'' \<mapsto> 4]\<rparr>"
    by (simp add: hash kept)
  from inst other
  have "users (snd (set_password sample_bcrypt (sample_state 4) 5 ''s1'' (Some user_token_a) ''pw''))
          ''b@x.com'' = users (sample_state 4) ''b@x.com''"
    by blast
  with absent have rest:
    "users (snd (set_password sample_bcrypt (sample_state 4) 5 ''s1'' (Some user_token_a) ''pw''))
       ''b@x.com'' = None"
    by simp
  from stored have stored': "users (sample_state 4) ''a@x.com'' = Some (sample_user 4)"
    by simp
  from valid answered paid stored' before set rest show ?thesis
    by blast
qed

text \<open>
  Claim C10. When the email of a valid token has no user record, setting a password with
  that token still answers 200 with a user token, which the user-only middleware accepts
  for seven days, while the stored state stays exactly as it was: no record is created and
  no hash is stored. A later login with that email (fields present) is answered 401.
\<close>

theorem set_password_without_user_record:
  assumes "jwt_verify t JWT_SECRET now = Some p" and "users s (p_email p) = None"
    and "password \<noteq> []"
  shows "set_password bc s now salt (Some t) password =
           (Response 200
              (Token (jwt_sign \<lparr>p_email = p_email p, p_type = ''user''\<rparr> JWT_SECRET SEVEN_DAYS now)),
            s) \<and>
         (now' < now + SEVEN_DAYS \<longrightarrow>
            verifyUserToken now'
              (Some (jwt_sign \<lparr>p_email = p_email p, p_type = ''user''\<rparr> JWT_SECRET SEVEN_DAYS now)) =
              Inr (p_email p)) \<and>
         (p_email p \<noteq> [] \<and> password' \<noteq> [] \<longrightarrow>
            login bc s now' (p_email p) password' =
              (Response 401 (ErrorMsg ''no such user or password not set''), s))"
  using assms
  by (simp add: set_password_def login_def setUserPassword_def findUserByEmail_def
      select_users_def verifyUserToken_def jwt_sign_def Let_def)

theorem set_password_without_user_record_witness:
  "users (sample_state 4) ''b@x.com'' = None \<and>
   set_password sample_bcrypt (sample_state 4) 5 ''s1''
       (Some (Jwt JWT_SECRET \<lparr>p_email = ''b@x.com'', p_type = ''preview''\<rparr> 600)) ''pw'' =
     (Response 200
        (Token (jwt_sign \<lparr>p_email = ''b@x.com'', p_type = ''user''\<rparr> JWT_SECRET SEVEN_DAYS 5)),
      sample_state 4) \<and>
   verifyUserToken 9
       (Some (jwt_sign \<lparr>p_email = ''b@x.com'', p_type = ''user''\<rparr> JWT_SECRET SEVEN_DAYS 5)) =
     Inr ''b@x.com'' \<and>
   login sample_bcrypt (sample_state 4) 9 ''b@x.com'' ''pw'' =
     (Response 401 (ErrorMsg ''no such user or password not set''), sample_state 4)"
proof -
  let ?p = "\<lparr>p_email = ''b@x.com'', p_type = ''preview''\<rparr>"
  have valid: "jwt_verify (Jwt JWT_SECRET ?p 600) JWT_SECRET 5 = Some ?p"
    by simp
  have absent: "users (sample_state 4) (p_email ?p) = None"
    by (simp add: sample_state_def)
  have present: "''pw'' \<noteq> []"
    by simp
  have later: "(9::nat) < 5 + SEVEN_DAYS"
    by (simp add: SEVEN_DAYS_def)
  from set_password_without_user_record
         [OF valid absent present, of sample_bcrypt "''s1''" 9 "''pw''"] absent later
  show ?thesis by simp
qed

text \<open>
  Claim C7. With the email and password fields present: if the user exists and the
  password is set through a token that verifies for the user's email, then a login with
  the same email and password answers 200 with a token of type \<^verbatim>\<open>user\<close> that the
  user-only middleware accepts. Here the hashing library is assumed to accept the password
  it has just hashed and to return a non-empty hash. A login is answered 401, with the
  state unchanged, when the email has no user record, when the record has no password
  hash, and when the library finds that the password does not match the stored hash.
\<close>

theorem set_password_then_login:
  assumes "email \<noteq> []" and "password \<noteq> []"
  shows "(users s email = Some u \<and> jwt_verify t JWT_SECRET now = Some p \<and> p_email p = email \<and>
          compareSync bc password (hashSync bc password salt) \<and>
          hashSync bc password salt \<noteq> [] \<longrightarrow>
            set_password bc s now salt (Some t) password =
              (Response 200
                 (Token (jwt_sign \<lparr>p_email = email, p_type = ''user''\<rparr> JWT_SECRET SEVEN_DAYS now)),
               setUserPassword s email (hashSync bc password salt)) \<and>
            login bc (setUserPassword s email (hashSync bc password salt)) now' email password =
              (Response 200
                 (Token (jwt_sign \<lparr>p_email = email, p_type = ''user''\<rparr> JWT_SECRET SEVEN_DAYS now')),
               setUserPassword s email (hashSync bc password salt)) \<and>
            verifyUserToken now'
              (Some (jwt_sign \<lparr>p_email = email, p_type = ''user''\<rparr> JWT_SECRET SEVEN_DAYS now')) =
              Inr email) \<and>
         (users s email = None \<longrightarrow>
            login bc s now email password =
              (Response 401 (ErrorMsg ''no such user or password not set''), s)) \<and>
         (users s email = Some u \<and> passwordHash u = None \<longrightarrow>
            login bc s now email password =
              (Response 401 (ErrorMsg ''no such user or password not set''), s)) \<and>
         (users s email = Some u \<and> passwordHash u = Some h \<and> \<not> compareSync bc password h \<longrightarrow>
            status (fst (login bc s now email password)) = 401 \<and>
            snd (login bc s now email password) = s)"
  using assms
  by (auto simp: set_password_def login_def setUserPassword_def findUserByEmail_def
      select_users_def verifyUserToken_def jwt_sign_def SEVEN_DAYS_def Let_def)

theorem set_password_then_login_witness:
  "set_password sample_bcrypt (sample_state 4) 5 ''s1'' (Some preview_token_a) ''pw'' =
     (Response 200
        (Token (jwt_sign \<lparr>p_email = ''a@x.com'', p_type = ''user''\<rparr> JWT_SECRET SEVEN_DAYS 5)),
      setUserPassword (sample_state 4) ''a@x.com'' ''s1pw'') \<and>
   login sample_bcrypt (setUserPassword (sample_state 4) ''a@x.com'' ''s1pw'') 9 ''a@x.com'' ''pw'' =
     (Response 200
        (Token (jwt_sign \<lparr>p_email = ''a@x.com'', p_type = ''user''\<rparr> JWT_SECRET SEVEN_DAYS 9)),
      setUserPassword (sample_state 4) ''a@x.com'' ''s1pw'') \<and>
   login sample_bcrypt (sample_state 4) 9 ''b@x.com'' ''pw'' =
     (Response 401 (ErrorMsg ''no such user or password not set''), sample_state 4) \<and>
   login sample_bcrypt (sample_state 4) 9 ''a@x.com'' ''pw'' =
     (Response 401 (ErrorMsg ''no such user or password not set''), sample_state 4) \<and>
   status (fst (login sample_bcrypt (setUserPassword (sample_state 4) ''a@x.com'' ''s1pw'') 9
                  ''a@x.com'' ''other'')) = 401"
proof -
  let ?p = "\<lparr>p_email = ''a@x.com'', p_type = ''preview''\<rparr>"
  let ?s' = "setUserPassword (sample_state 4) ''a@x.com'' ''s1pw''"
  have email: "''a@x.com'' \<noteq> []" and other_email: "''b@x.com'' \<noteq> []"
    and pw: "''pw'' \<noteq> []" and other_pw: "''other'' \<noteq> []"
    by simp_all
  have hash: "hashSync sample_bcrypt ''pw'' ''s1'' = ''s1pw''"
    by (simp add: sample_bcrypt_def)
  have upgrade:
    "users (sample_state 4) ''a@x.com'' = Some (sample_user 4) \<and>
     jwt_verify preview_token_a JWT_SECRET 5 = Some ?p \<and> p_email ?p = ''a@x.com'' \<and>
     compareSync sample_bcrypt ''pw'' (hashSync sample_bcrypt ''pw'' ''s1'') \<and>
     hashSync sample_bcrypt ''pw'' ''s1'' \<noteq> []"
    by (simp add: sample_defs)
  have no_user: "users (sample_state 4) ''b@x.com'' = None"
    by (simp add: sample_state_def)
  have no_hash:
    "users (sample_state 4) ''a@x.com'' = Some (sample_user 4) \<and>
     passwordHash (sample_user 4) = None"
    by (simp add: sample_state_def sample_user_def)
  have mismatch:
    "users ?s' ''a@x.com'' = Some (sample_user 4\<lparr>passwordHash := Some ''s1pw''\<rparr>) \<and>
     passwordHash (sample_user 4\<lparr>passwordHash := Some ''s1pw''\<rparr>) = Some ''s1pw'' \<and>
     \<not> compareSync sample_bcrypt ''other'' ''s1pw''"
    by (simp add: sample_state_def setUserPassword_def sample_bcrypt_def)
  from set_password_then_login [OF email pw,
         where s = "sample_state 4" and u = "sample_user 4" and t = preview_token_a and now = 5
           and p = ?p and bc = sample_bcrypt and salt = "''s1''" and now' = 9]
       upgrade hash
  have a: "set_password sample_bcrypt (sample_state 4) 5 ''s1'' (Some preview_token_a) ''pw'' =
     (Response 200
        (Token (jwt_sign \<lparr>p_email = ''a@x.com'', p_type = ''user''\<rparr> JWT_SECRET SEVEN_DAYS 5)),
      ?s') \<and>
   login sample_bcrypt ?s' 9 ''a@x.com'' ''pw'' =
     (Response 200
        (Token (jwt_sign \<lparr>p_email = ''a@x.com'', p_type = ''user''\<rparr> JWT_SECRET SEVEN_DAYS 9)),
      ?s')"
    by simp
  from set_password_then_login [OF other_email pw,
         where s = "sample_state 4" and now = 9 and bc = sample_bcrypt] no_user
  have b: "login sample_bcrypt (sample_state 4) 9 ''b@x.com'' ''pw'' =
     (Response 401 (ErrorMsg ''no such user or password not set''), sample_state 4)"
    by blast
  from set_password_then_login [OF email pw,
         where s = "sample_state 4" and u = "sample_user 4" and now = 9 and bc = sample_bcrypt]
       no_hash
  have c: "login sample_bcrypt (sample_state 4) 9 ''a@x.com'' ''pw'' =
     (Response 401 (ErrorMsg ''no such user or password not set''), sample_state 4)"
    by blast
  from set_password_then_login [OF email other_pw,
         where s = ?s' and u = "sample_user 4\<lparr>passwordHash := Some ''s1pw''\<rparr>" and now = 9
           and bc = sample_bcrypt and h = "''s1pw''"]
       mismatch
  have d: "status (fst (login sample_bcrypt ?s' 9 ''a@x.com'' ''other'')) = 401"
    by blast
  from a b c d show ?thesis by blast
qed

section \<open>Preview counts over the life of the system\<close>

subsection \<open>Effect of the helper DB functions\<close>


















subsection \<open>Overlapping preview requests\<close>

text \<open>Served without interruption, a preview request is its read followed by its write.\<close>

lemma preview_split:
  "preview s now auth songId =
     (case preview_read s now auth songId of
        (Inl r, s1) \<Rightarrow> (r, s1)
      | (Inr w, s1) \<Rightarrow> preview_write s1 w)"
  unfolding preview_def preview_read_def preview_write_def Let_def
  by (simp split: option.split sum.split)


section \<open>The preview and download gate\<close>

text \<open>
  Both handlers read \<^verbatim>\<open>category\<close> and \<^verbatim>\<open>filename\<close> off the array of rows that
  the songs query hands them, not off its first row. The key they look up in the previews
  object is therefore \<^verbatim>\<open>undefined\<close> for every song, the test for a missing song
  never fires, and joining the upload path throws: no request is ever answered with a
  stream or with 404.
\<close>

lemma preview_status: "status (fst (preview s now auth songId)) \<in> {401, 403, 500}"
  by (simp add: gate_defs split: option.splits)

lemma download_status: "status (fst (download s now auth songId)) \<in> {401, 403, 500}"
  by (simp add: gate_defs split: option.splits sum.splits)

lemma download_state_unchanged: "snd (download s now auth songId) = s"
  by (simp add: gate_defs split: option.splits sum.splits)

text \<open>
  Claim C1 says that a preview of a song whose category has a stored count of at least 5 is
  answered 403 with the previews object unchanged, and that below 5 the count of the song's
  category goes up by one with all other counts unchanged. The handler does neither. With
  a count of 5 for Calm, a preview of the Calm song with a valid preview token is answered
  500, the count of Calm stays 5 and a count of 1 appears under the key
  \<^verbatim>\<open>undefined\<close>. With a count of 2 for Calm the answer is 500 again, the count of Calm
  stays 2 and the key \<^verbatim>\<open>undefined\<close> is charged instead.
\<close>

theorem preview_charges_key_undefined:
  "songs (sample_state 5) 3 = Some calm_song \<and> category calm_song = ''Calm'' \<and>
   getEmailFromAuthHeader 5 (Some preview_token_a) = Some ''a@x.com'' \<and>
   preview_count (sample_state 5) ''a@x.com'' ''Calm'' = 5 \<and>
   preview_count (sample_state 5) ''a@x.com'' ''undefined'' = 0 \<and>
   status (fst (preview (sample_state 5) 5 (Some preview_token_a) 3)) = 500 \<and>
   preview_count (snd (preview (sample_state 5) 5 (Some preview_token_a) 3)) ''a@x.com'' ''Calm'' = 5 \<and>
   preview_count (snd (preview (sample_state 5) 5 (Some preview_token_a) 3)) ''a@x.com''
     ''undefined'' = 1 \<and>
   preview_count (sample_state 2) ''a@x.com'' ''Calm'' = 2 \<and>
   status (fst (preview (sample_state 2) 5 (Some preview_token_a) 3)) = 500 \<and>
   preview_count (snd (preview (sample_state 2) 5 (Some preview_token_a) 3)) ''a@x.com'' ''Calm'' = 2 \<and>
   preview_count (snd (preview (sample_state 2) 5 (Some preview_token_a) 3)) ''a@x.com''
     ''undefined'' = 1"
  by (simp add: eval_defs)

text \<open>
  Claim C2 says that a download with a valid user token succeeds exactly when the stored
  count of the song's category is above 0. The handler looks the count up under the key
  \<^verbatim>\<open>undefined\<close>: with a count of 1 for Calm and none under that key, the download of
  the Calm song, whose file is present, is answered 403. Once a preview has charged the
  key \<^verbatim>\<open>undefined\<close>, the same download gets past the count and is answered 500. The
  state is left unchanged both times.
\<close>

theorem download_reads_key_undefined:
  "songs (sample_state 1) 3 = Some calm_song \<and> category calm_song = ''Calm'' \<and>
   filename calm_song \<in> files (sample_state 1) \<and>
   verifyUserToken 5 (Some user_token_a) = Inr ''a@x.com'' \<and>
   preview_count (sample_state 1) ''a@x.com'' ''Calm'' = 1 \<and>
   download (sample_state 1) 5 (Some user_token_a) 3 =
     (Response 403 (ErrorMsg ''no preview/download allowance left for this category''),
      sample_state 1) \<and>
   status (fst (download (snd (preview (sample_state 1) 5 (Some user_token_a) 3)) 6
                  (Some user_token_a) 3)) = 500 \<and>
   snd (download (snd (preview (sample_state 1) 5 (Some user_token_a) 3)) 6
          (Some user_token_a) 3) =
     snd (preview (sample_state 1) 5 (Some user_token_a) 3)"
  by (simp add: eval_defs)

text \<open>
  Claim C4 says that a preview of an existing song with a count below 5 and no backing
  file is answered 404 after the count of the song's category has gone up by one. The
  handler does store the increased count before it looks for the file, but the count it
  increases is the one under the key \<^verbatim>\<open>undefined\<close>, and the request ends in 500 before
  the file is looked for: with a count of 2 for Calm and no file in the uploads directory,
  the answer is 500 and the count of Calm is still 2.
\<close>

theorem preview_without_file_answers_500:
  "songs ((sample_state 2)\<lparr>files := {}\<rparr>) 3 = Some calm_song \<and> category calm_song = ''Calm'' \<and>
   filename calm_song \<notin> files ((sample_state 2)\<lparr>files := {}\<rparr>) \<and>
   preview_count ((sample_state 2)\<lparr>files := {}\<rparr>) ''a@x.com'' ''Calm'' = 2 \<and>
   status (fst (preview ((sample_state 2)\<lparr>files := {}\<rparr>) 5 (Some preview_token_a) 3)) = 500 \<and>
   preview_count (snd (preview ((sample_state 2)\<lparr>files := {}\<rparr>) 5 (Some preview_token_a) 3))
     ''a@x.com'' ''Calm'' = 2 \<and>
   preview_count (snd (preview ((sample_state 2)\<lparr>files := {}\<rparr>) 5 (Some preview_token_a) 3))
     ''a@x.com'' ''undefined'' = 1"
  by (simp add: eval_defs)

end
